theory Spec2Isabelle
  imports Main
begin

section \<open>Data model of the service (service.go)\<close>

subsection \<open>Configuration\<close>

text \<open>
  \<^verbatim>\<open>ServiceConfig\<close> is declared outside service.go; the record has the fields
  that service.go reads or writes, the nested structs flattened
  (\<^verbatim>\<open>config.Metrics.Server\<close> is \<open>Metrics_Server\<close>). \<^verbatim>\<open>Metrics.Interval\<close> is a
  \<^verbatim>\<open>time.Duration\<close>, a count of nanoseconds.
\<close>

record ServiceConfig =
  Addr :: string
  Log_Prefix :: string
  Metrics_Enabled :: bool
  Metrics_Server :: string
  Metrics_Prefix :: string
  Metrics_Interval :: int
  Version_Min :: int
  Version_Max :: int
  Schema_Enabled :: bool
  Schema_UriPath :: string
  Schema_FilePath :: string
  Schema_FilePattern :: string
  Schema_RootRedirect :: bool
  Transport_TLS :: bool
  Transport_CertFilePath :: string
  Transport_KeyFilePath :: string

definition Second :: int where
  "Second = 1000000000"

definition DEFAULT_STATSD_SERVER :: string where
  "DEFAULT_STATSD_SERVER = ''127.0.0.1:8125''"

definition DEFAULT_STATSD_PREFIX :: string where
  "DEFAULT_STATSD_PREFIX = ''%HOST%.''"

definition DEFAULT_STATSD_INTERVAL :: int where
  "DEFAULT_STATSD_INTERVAL = 2 * Second"

datatype error = Error string

subsection \<open>Logger and metrics\<close>

text \<open>\<^verbatim>\<open>log.New(os.Stderr, prefix, log.LstdFlags)\<close>: the logger is its prefix.\<close>

record Logger =
  log_prefix :: string

definition log_New :: "string \<Rightarrow> Logger" where
  "log_New p = \<lparr>log_prefix = p\<rparr>"

text \<open>
  The statsd client and its buffer are values of the statsd library; the
  model keeps what service.go gives them and whether the buffer was closed.
\<close>

record StatsdClient =
  client_addr :: string
  client_prefix :: string

record StatsdBuffer =
  flushInterval :: int
  statsd :: StatsdClient
  buffer_Logger :: "Logger option"
  closed :: bool

definition NewStatsdClient :: "string \<Rightarrow> string \<Rightarrow> StatsdClient" where
  "NewStatsdClient a p = \<lparr>client_addr = a, client_prefix = p\<rparr>"

definition NewStatsdBuffer :: "int \<Rightarrow> StatsdClient \<Rightarrow> StatsdBuffer" where
  "NewStatsdBuffer i c = \<lparr>flushInterval = i, statsd = c, buffer_Logger = None, closed = False\<rparr>"

definition Close :: "StatsdBuffer \<Rightarrow> StatsdBuffer" where
  "Close b = b\<lparr>closed := True\<rparr>"

datatype NullStats = NullStats

text \<open>
  A value of the interface \<^verbatim>\<open>Stats\<close>: the nil interface, or a pointer of one
  of the two implementing types; a pointer is an option, \<open>None\<close> the nil
  pointer.
\<close>

datatype Stats =
    NilStats
  | BufferStats "StatsdBuffer option"
  | NullStatsPtr "NullStats option"

definition nullStats :: "NullStats option" where
  "nullStats = Some NullStats"

fun usable :: "Stats \<Rightarrow> bool" where
  "usable NilStats = False"
| "usable (BufferStats p) = (p \<noteq> None)"
| "usable (NullStatsPtr p) = (p \<noteq> None)"

subsection \<open>Responses and handlers\<close>

text \<open>
  \<^verbatim>\<open>http.ResponseWriter\<close>: the status is written once, by the first
  \<^verbatim>\<open>WriteHeader\<close>.
\<close>

record ResponseWriter =
  status :: "nat option"
  headers :: "(string \<times> string) list"
  body :: string

definition WriteHeader :: "ResponseWriter \<Rightarrow> nat \<Rightarrow> ResponseWriter" where
  "WriteHeader rw code = (if status rw = None then rw\<lparr>status := Some code\<rparr> else rw)"

definition StatusNotFound :: nat where
  "StatusNotFound = 404"

definition StatusMethodNotAllowed :: nat where
  "StatusMethodNotAllowed = 405"

text \<open>
  A continuation takes the context \<open>'c\<close>, the response writer and the
  request \<open>'q\<close>, and leaves the response writer as it has written it.
\<close>

type_synonym ('c, 'q) ContextHandlerFunc = "'c \<Rightarrow> ResponseWriter \<Rightarrow> 'q \<Rightarrow> ResponseWriter"

datatype ContentType = ContentTypeJson | ContentTypeXml | ContentTypeHtml

text \<open>
  The handlers of the service. \<^verbatim>\<open>NewBottom\<close>, \<^verbatim>\<open>NewNegotiator\<close> and
  \<^verbatim>\<open>NewContext\<close> are constructors defined outside service.go: each is a
  constructor of the datatype, holding its arguments (\<^verbatim>\<open>NewContext\<close> also
  takes the service itself, which the value cannot hold; \<^verbatim>\<open>NewBottom\<close> holds
  the configuration, the logger and the stats as they are when it is
  called). \<open>HandlerFunc\<close> wraps a function, as in the source.
\<close>

datatype ('c, 'q) Handler =
    NewBottom ServiceConfig Logger Stats
  | NewNegotiator "ContentType list"
  | NewContext int int
  | HandlerFunc "'c \<Rightarrow> ResponseWriter \<Rightarrow> 'q \<Rightarrow> ('c, 'q) ContextHandlerFunc \<Rightarrow> ResponseWriter"

text \<open>
  Modelled from the spec: \<^verbatim>\<open>buildMiddleware\<close> and the type \<^verbatim>\<open>middleware\<close> are not
  in service.go. The chain built from a handler list runs the first handler
  with a continuation that runs the second, and so on; the continuation of
  the last handler does nothing.
\<close>

datatype ('c, 'q) middleware =
    Void
  | Link "('c, 'q) Handler" "('c, 'q) middleware"

fun buildMiddleware :: "('c, 'q) Handler list \<Rightarrow> ('c, 'q) middleware" where
  "buildMiddleware [] = Void"
| "buildMiddleware (h # hs) = Link h (buildMiddleware hs)"

fun chain_handlers :: "('c, 'q) middleware \<Rightarrow> ('c, 'q) Handler list" where
  "chain_handlers Void = []"
| "chain_handlers (Link h m) = h # chain_handlers m"

text \<open>
  Modelled from the spec: the method \<^verbatim>\<open>HandleHTTP\<close> of a handler. A
  \<open>HandlerFunc\<close> calls its function; what the three built-in handlers do is
  outside service.go and is the parameter \<open>builtin\<close>.
\<close>

fun HandleHTTP ::
  "(('c, 'q) Handler \<Rightarrow> 'c \<Rightarrow> ResponseWriter \<Rightarrow> 'q \<Rightarrow> ('c, 'q) ContextHandlerFunc \<Rightarrow> ResponseWriter)
   \<Rightarrow> ('c, 'q) Handler \<Rightarrow> 'c \<Rightarrow> ResponseWriter \<Rightarrow> 'q \<Rightarrow> ('c, 'q) ContextHandlerFunc \<Rightarrow> ResponseWriter" where
  "HandleHTTP builtin (HandlerFunc f) ctx rw r next = f ctx rw r next"
| "HandleHTTP builtin h ctx rw r next = builtin h ctx rw r next"

fun ServeHTTP ::
  "(('c, 'q) Handler \<Rightarrow> 'c \<Rightarrow> ResponseWriter \<Rightarrow> 'q \<Rightarrow> ('c, 'q) ContextHandlerFunc \<Rightarrow> ResponseWriter)
   \<Rightarrow> ('c, 'q) middleware \<Rightarrow> 'c \<Rightarrow> ResponseWriter \<Rightarrow> 'q \<Rightarrow> ResponseWriter" where
  "ServeHTTP builtin Void ctx rw r = rw"
| "ServeHTTP builtin (Link h m) ctx rw r = HandleHTTP builtin h ctx rw r (ServeHTTP builtin m)"

subsection \<open>Routes\<close>

datatype Method = GET | PUT | POST | DELETE

datatype Operation = OpList | OpGet | OpCreate | OpUpdate | OpDelete | OpAction

datatype Segment = IdParam | ActionParam

text \<open>
  The path a route is registered under. \<open>Template p segs\<close> is the path \<open>p\<close>
  followed by the parameter segments \<open>segs\<close> (\<^verbatim>\<open>p/{id}/{action}\<close> is
  \<open>Template p [IdParam, ActionParam]\<close>). \<open>PathJoin\<close> and \<open>FmtVersion\<close> stand for
  the calls \<^verbatim>\<open>path.Join(a, b)\<close> and \<^verbatim>\<open>fmt.Sprintf("v%d", n)\<close> of the Go library,
  which the model does not evaluate.
\<close>

datatype PathExpr =
    Template string "Segment list"
  | PathJoin PathExpr PathExpr
  | FmtVersion int

record SchemaHandler =
  filePath :: string
  filePattern :: string

definition NewSchemaHandler :: "string \<Rightarrow> string \<Rightarrow> SchemaHandler" where
  "NewSchemaHandler fp pat = \<lparr>filePath = fp, filePattern = pat\<rparr>"

definition StatusTemporaryRedirect :: nat where
  "StatusTemporaryRedirect = 307"

text \<open>
  What a route calls: an operation of a resource \<open>'r\<close>, with or without the
  id parameter; the schema handler; or a redirect.
\<close>

datatype 'r Target =
    ResourceOp Operation bool 'r
  | SchemaServeHTTP SchemaHandler
  | Redirect PathExpr nat

record 'r Route =
  httpMethod :: Method
  path :: PathExpr
  target :: "'r Target"

text \<open>
  The router of the httprouter library: the routes registered on it, in the
  order of registration, and its two hooks. \<open>Handle\<close> records a registration.
  How the library matches a request is its own and is not part of the model.
\<close>

record ('r, 'c, 'q) Router =
  routes :: "'r Route list"
  NotFound :: "('c, 'q) ContextHandlerFunc option"
  MethodNotAllowed :: "('c, 'q) ContextHandlerFunc option"

definition httprouter_New :: "('r, 'c, 'q) Router" where
  "httprouter_New = \<lparr>routes = [], NotFound = None, MethodNotAllowed = None\<rparr>"

definition Handle :: "('r, 'c, 'q) Router \<Rightarrow> Method \<Rightarrow> PathExpr \<Rightarrow> 'r Target \<Rightarrow> ('r, 'c, 'q) Router" where
  "Handle rt m p t = rt\<lparr>routes := routes rt @ [\<lparr>httpMethod = m, path = p, target = t\<rparr>]\<rparr>"

text \<open>
  A call that returns, or one that panics and returns nothing.
\<close>

datatype 'a outcome = Panic | Return 'a

text \<open>
  The library panics when it refuses a registration, as it does for a path
  that is empty or that is already registered for the method. Which
  registrations it refuses is its own: the parameter \<open>accepts\<close> gives, for
  the methods and paths registered so far, whether it takes one more.
  \<open>router_GET\<close> is the call \<^verbatim>\<open>s.router.GET(path, handle)\<close> that service.go makes.
\<close>

type_synonym Accepts = "(Method \<times> PathExpr) list \<Rightarrow> Method \<Rightarrow> PathExpr \<Rightarrow> bool"

definition registered :: "('r, 'c, 'q) Router \<Rightarrow> (Method \<times> PathExpr) list" where
  "registered rt = map (\<lambda>r. (httpMethod r, path r)) (routes rt)"

definition router_GET ::
  "Accepts \<Rightarrow> ('r, 'c, 'q) Router \<Rightarrow> PathExpr \<Rightarrow> 'r Target \<Rightarrow> ('r, 'c, 'q) Router outcome" where
  "router_GET accepts rt p t =
     (if accepts (registered rt) GET p then Return (Handle rt GET p t) else Panic)"

subsection \<open>The service\<close>

record ('r, 'c, 'q) service =
  config :: ServiceConfig
  logger :: Logger
  router :: "('r, 'c, 'q) Router"
  statsdClient :: "StatsdClient option"
  stats :: "StatsdBuffer option"
  handlers :: "('c, 'q) Handler list"
  middleware :: "('c, 'q) middleware option"
  schema :: "SchemaHandler option"

section \<open>Operations of the service\<close>

definition AddHandler :: "('r, 'c, 'q) service \<Rightarrow> ('c, 'q) Handler \<Rightarrow> ('r, 'c, 'q) service" where
  "AddHandler s h =
     (let s = s\<lparr>handlers := handlers s @ [h]\<rparr>;
          s = s\<lparr>middleware := Some (buildMiddleware (handlers s))\<rparr>
      in s)"

definition Stats :: "('r, 'c, 'q) service \<Rightarrow> Stats" where
  "Stats s = (if stats s \<noteq> None then BufferStats (stats s) else NullStatsPtr nullStats)"

text \<open>
  Modelled from the spec: the six functions that register the routes of a
  resource are not in service.go. Section 4.5 of the specification gives
  the HTTP method, the path and the operation of each binding, with the id
  parameter when \<open>withId\<close> holds, and has each binding registered
  unconditionally.
\<close>

definition addListRoute :: "('r, 'c, 'q) Router \<Rightarrow> string \<Rightarrow> 'r \<Rightarrow> ('r, 'c, 'q) Router" where
  "addListRoute rt basePath r = Handle rt GET (Template basePath []) (ResourceOp OpList False r)"

definition addGetRoute :: "('r, 'c, 'q) Router \<Rightarrow> string \<Rightarrow> bool \<Rightarrow> 'r \<Rightarrow> ('r, 'c, 'q) Router" where
  "addGetRoute rt basePath withId r =
     (if withId then Handle rt GET (Template basePath [IdParam]) (ResourceOp OpGet True r)
      else Handle rt GET (Template basePath []) (ResourceOp OpGet False r))"

definition addCreateRoute :: "('r, 'c, 'q) Router \<Rightarrow> string \<Rightarrow> 'r \<Rightarrow> ('r, 'c, 'q) Router" where
  "addCreateRoute rt basePath r = Handle rt POST (Template basePath []) (ResourceOp OpCreate False r)"

definition addUpdateRoute :: "('r, 'c, 'q) Router \<Rightarrow> string \<Rightarrow> bool \<Rightarrow> 'r \<Rightarrow> ('r, 'c, 'q) Router" where
  "addUpdateRoute rt basePath withId r =
     (if withId then Handle rt PUT (Template basePath [IdParam]) (ResourceOp OpUpdate True r)
      else Handle rt PUT (Template basePath []) (ResourceOp OpUpdate False r))"

definition addDeleteRoute :: "('r, 'c, 'q) Router \<Rightarrow> string \<Rightarrow> bool \<Rightarrow> 'r \<Rightarrow> ('r, 'c, 'q) Router" where
  "addDeleteRoute rt basePath withId r =
     (if withId then Handle rt DELETE (Template basePath [IdParam]) (ResourceOp OpDelete True r)
      else Handle rt DELETE (Template basePath []) (ResourceOp OpDelete False r))"

definition addActionRoute :: "('r, 'c, 'q) Router \<Rightarrow> string \<Rightarrow> bool \<Rightarrow> 'r \<Rightarrow> ('r, 'c, 'q) Router" where
  "addActionRoute rt basePath withId r =
     (if withId then Handle rt POST (Template basePath [IdParam, ActionParam]) (ResourceOp OpAction True r)
      else Handle rt POST (Template basePath [ActionParam]) (ResourceOp OpAction False r))"

text \<open>
  The router is reached through a pointer: each call changes the one router
  of the service.
\<close>

definition AddSingletonResource :: "('r, 'c, 'q) service \<Rightarrow> string \<Rightarrow> 'r \<Rightarrow> ('r, 'c, 'q) service" where
  "AddSingletonResource s basePath r =
     (let s = s\<lparr>router := addGetRoute (router s) basePath False r\<rparr>;
          s = s\<lparr>router := addUpdateRoute (router s) basePath False r\<rparr>;
          s = s\<lparr>router := addActionRoute (router s) basePath False r\<rparr>
      in s)"

definition AddCollectionResource :: "('r, 'c, 'q) service \<Rightarrow> string \<Rightarrow> 'r \<Rightarrow> ('r, 'c, 'q) service" where
  "AddCollectionResource s basePath r =
     (let s = s\<lparr>router := addListRoute (router s) basePath r\<rparr>;
          s = s\<lparr>router := addGetRoute (router s) basePath True r\<rparr>;
          s = s\<lparr>router := addCreateRoute (router s) basePath r\<rparr>;
          s = s\<lparr>router := addUpdateRoute (router s) basePath True r\<rparr>;
          s = s\<lparr>router := addDeleteRoute (router s) basePath False r\<rparr>;
          s = s\<lparr>router := addDeleteRoute (router s) basePath True r\<rparr>;
          s = s\<lparr>router := addActionRoute (router s) basePath True r\<rparr>
      in s)"

definition newBottomHandler :: "('r, 'c, 'q) service \<Rightarrow> error + ('c, 'q) Handler" where
  "newBottomHandler s = Inr (NewBottom (config s) (logger s) (Stats s))"

definition newNegotiatorHandler :: "('r, 'c, 'q) service \<Rightarrow> error + ('c, 'q) Handler" where
  "newNegotiatorHandler s = Inr (NewNegotiator [ContentTypeJson, ContentTypeXml, ContentTypeHtml])"

definition newContextHandler :: "('r, 'c, 'q) service \<Rightarrow> error + ('c, 'q) Handler" where
  "newContextHandler s =
     (if Version_Min (config s) < 1 then
        Inl (Error ''service's minimum API version must be greater than zero'')
      else if Version_Max (config s) < 1 then
        Inl (Error ''service's maximum API version must be greater than zero'')
      else Inr (NewContext (Version_Min (config s)) (Version_Max (config s))))"

text \<open>
  The router handler gives the request to the router and has no use for its
  continuation. The method \<^verbatim>\<open>HandleHTTP\<close> of the router belongs to the
  httprouter library and is the parameter \<open>dispatch\<close>.
\<close>

definition newRouterHandler ::
  "(('r, 'c, 'q) Router \<Rightarrow> ('c, 'q) ContextHandlerFunc) \<Rightarrow> ('r, 'c, 'q) service \<Rightarrow> error + ('c, 'q) Handler" where
  "newRouterHandler dispatch s = Inr (HandlerFunc (\<lambda>ctx rw r _. dispatch (router s) ctx rw r))"

text \<open>
  addSchemaRoutes registers two routes, and a third for the root redirect;
  a registration that the router refuses panics, and the panic leaves
  addSchemaRoutes and its caller.
\<close>

definition addSchemaRoutes :: "Accepts \<Rightarrow> ('r, 'c, 'q) service \<Rightarrow> ('r, 'c, 'q) service outcome" where
  "addSchemaRoutes accepts s =
     (let config = config s;
          sh = NewSchemaHandler (Schema_FilePath config) (Schema_FilePattern config);
          s = s\<lparr>schema := Some sh\<rparr>
      in case router_GET accepts (router s)
                (PathJoin (Template (Schema_UriPath config) []) (Template ''/v:version'' []))
                (SchemaServeHTTP sh) of
           Panic \<Rightarrow> Panic
         | Return rt \<Rightarrow>
             (let s = s\<lparr>router := rt\<rparr>;
                  defaultSchemaPath =
                    PathJoin (Template (Schema_UriPath config) []) (FmtVersion (Version_Max config))
              in case router_GET accepts (router s) (Template (Schema_UriPath config) [])
                        (Redirect defaultSchemaPath StatusTemporaryRedirect) of
                   Panic \<Rightarrow> Panic
                 | Return rt \<Rightarrow>
                     (let s = s\<lparr>router := rt\<rparr>
                      in if Schema_RootRedirect config then
                           (case router_GET accepts (router s) (Template ''/'' [])
                                   (Redirect (Template (Schema_UriPath config) []) StatusTemporaryRedirect) of
                              Panic \<Rightarrow> Panic
                            | Return rt \<Rightarrow> Return (s\<lparr>router := rt\<rparr>))
                         else Return s)))"

text \<open>
  NewService receives a pointer to the configuration and writes the metrics
  defaults through it, so the caller sees them whether or not construction
  succeeds: the first component of the result is the caller's configuration
  after the call, the second what the call returns, the error or the
  service, or \<open>Panic\<close> when a schema route is refused.
\<close>

definition NewService ::
  "Accepts \<Rightarrow> ServiceConfig \<Rightarrow> ServiceConfig \<times> (error + ('r, 'c, 'q) service) outcome" where
  "NewService accepts config0 =
     (let s = \<lparr>config = config0, logger = log_New (Log_Prefix config0), router = httprouter_New,
               statsdClient = None, stats = None, handlers = [], middleware = None, schema = None\<rparr>;
          s = s\<lparr>router := (router s)\<lparr>NotFound := Some (\<lambda>_ rw _. WriteHeader rw StatusNotFound)\<rparr>\<rparr>;
          s = s\<lparr>router := (router s)\<lparr>MethodNotAllowed :=
                 Some (\<lambda>_ rw _. WriteHeader rw StatusMethodNotAllowed)\<rparr>\<rparr>;
          s = (if Metrics_Enabled (config s) then
                 (let s = (if Metrics_Server (config s) = [] then
                             s\<lparr>config := (config s)\<lparr>Metrics_Server := DEFAULT_STATSD_SERVER\<rparr>\<rparr>
                           else s);
                      s = (if Metrics_Prefix (config s) = [] then
                             s\<lparr>config := (config s)\<lparr>Metrics_Prefix := DEFAULT_STATSD_PREFIX\<rparr>\<rparr>
                           else s);
                      s = (if Metrics_Interval (config s) = 0 then
                             s\<lparr>config := (config s)\<lparr>Metrics_Interval := DEFAULT_STATSD_INTERVAL\<rparr>\<rparr>
                           else s);
                      client = NewStatsdClient (Metrics_Server (config s)) (Metrics_Prefix (config s));
                      s = s\<lparr>statsdClient := Some client\<rparr>;
                      buffer = NewStatsdBuffer (Metrics_Interval (config s)) client;
                      s = s\<lparr>stats := Some (buffer\<lparr>buffer_Logger := Some (logger s)\<rparr>)\<rparr>
                  in s)
               else s)
      in case newBottomHandler s of
           Inl err \<Rightarrow> (config s, Return (Inl err))
         | Inr bottom \<Rightarrow>
             (case newNegotiatorHandler s of
                Inl err \<Rightarrow> (config s, Return (Inl err))
              | Inr negotiator \<Rightarrow>
                  (case newContextHandler s of
                     Inl err \<Rightarrow> (config s, Return (Inl err))
                   | Inr context \<Rightarrow>
                       (let s = s\<lparr>handlers := [bottom, negotiator, context]\<rparr>;
                            s = s\<lparr>middleware := Some (buildMiddleware (handlers s))\<rparr>
                        in case (if Schema_Enabled (config s) then addSchemaRoutes accepts s
                                 else Return s) of
                             Panic \<Rightarrow> (config s, Panic)
                           | Return s \<Rightarrow> (config s, Return (Inr s))))))"

text \<open>
  Whether the router takes the routes of addSchemaRoutes, each after those
  registered before it; the router of a new service has no routes.
\<close>

definition schema_routes_accepted :: "Accepts \<Rightarrow> ServiceConfig \<Rightarrow> bool" where
  "schema_routes_accepted accepts c =
     (let p1 = PathJoin (Template (Schema_UriPath c) []) (Template ''/v:version'' []);
          p2 = Template (Schema_UriPath c) []
      in accepts [] GET p1 \<and> accepts [(GET, p1)] GET p2
         \<and> (if Schema_RootRedirect c then accepts [(GET, p1), (GET, p2)] GET (Template ''/'' [])
             else True))"

text \<open>
  What Run gives to the HTTP server: the address, the TLS files when TLS is
  configured, and the middleware chain.
\<close>

datatype ('c, 'q) Listen =
    ListenAndServe string "('c, 'q) middleware option"
  | ListenAndServeTLS string string string "('c, 'q) middleware option"

text \<open>
  The server is the parameter \<open>serve\<close>: it blocks, and when it stops it
  returns an error value (\<open>Some None\<close> is the nil error); \<open>None\<close> is a server
  that never returns. Run returns that error value, and the model also gives
  the service as Run leaves it and the messages given to the logger. The
  deferred \<^verbatim>\<open>Close\<close> of the statsd buffer runs when the server has returned.
\<close>

definition Run ::
  "(('r, 'c, 'q) Router \<Rightarrow> ('c, 'q) ContextHandlerFunc) \<Rightarrow> (('c, 'q) Listen \<Rightarrow> error option option)
   \<Rightarrow> ('r, 'c, 'q) service \<Rightarrow> (error option \<times> ('r, 'c, 'q) service \<times> string list) option" where
  "Run dispatch serve s =
     (case newRouterHandler dispatch s of
        Inl err \<Rightarrow> Some (Some err, s, [])
      | Inr h \<Rightarrow>
          (let s = AddHandler s h;
               deferred = (stats s \<noteq> None);
               (out, res) =
                 (if Transport_TLS (config s) then
                    ([''HTTPS listening on '' @ Addr (config s)],
                     serve (ListenAndServeTLS (Addr (config s)) (Transport_CertFilePath (config s))
                              (Transport_KeyFilePath (config s)) (middleware s)))
                  else
                    ([''HTTP listening on '' @ Addr (config s)],
                     serve (ListenAndServe (Addr (config s)) (middleware s))))
           in case res of
                None \<Rightarrow> None
              | Some err \<Rightarrow>
                  Some (err, (if deferred then s\<lparr>stats := map_option Close (stats s)\<rparr> else s), out)))"

text \<open>
  The calls a client makes on a constructed service before Run, and their
  effect in sequence.
\<close>

datatype ('r, 'c, 'q) Call =
    CallAddHandler "('c, 'q) Handler"
  | CallAddSingletonResource string 'r
  | CallAddCollectionResource string 'r

fun call :: "('r, 'c, 'q) service \<Rightarrow> ('r, 'c, 'q) Call \<Rightarrow> ('r, 'c, 'q) service" where
  "call s (CallAddHandler h) = AddHandler s h"
| "call s (CallAddSingletonResource p r) = AddSingletonResource s p r"
| "call s (CallAddCollectionResource p r) = AddCollectionResource s p r"

fun calls :: "('r, 'c, 'q) service \<Rightarrow> ('r, 'c, 'q) Call list \<Rightarrow> ('r, 'c, 'q) service" where
  "calls s [] = s"
| "calls s (c # cs) = calls (call s c) cs"

fun added_handlers :: "('r, 'c, 'q) Call list \<Rightarrow> ('c, 'q) Handler list" where
  "added_handlers [] = []"
| "added_handlers (CallAddHandler h # cs) = h # added_handlers cs"
| "added_handlers (_ # cs) = added_handlers cs"


section \<open>Concrete instances\<close>

text \<open>
  A configuration with metrics and schema routes switched off, variants of
  it, and a small service, for evaluating the operations on explicit inputs.
\<close>

definition example_config :: ServiceConfig where
  "example_config =
     \<lparr>Addr = '':8080'', Log_Prefix = ''svc '', Metrics_Enabled = False, Metrics_Server = [],
      Metrics_Prefix = [], Metrics_Interval = 0, Version_Min = 1, Version_Max = 2,
      Schema_Enabled = False, Schema_UriPath = ''/schema'', Schema_FilePath = [],
      Schema_FilePattern = [], Schema_RootRedirect = False, Transport_TLS = False,
      Transport_CertFilePath = [], Transport_KeyFilePath = []\<rparr>"

text \<open>
  An acceptance test that refuses what the router surely refuses: an empty
  path, and a path already registered for the method.
\<close>

definition accepts_fresh :: Accepts where
  "accepts_fresh regd m p = (p \<noteq> Template [] [] \<and> (m, p) \<notin> set regd)"

text \<open>
  Schema routes under \<^verbatim>\<open>/schema\<close>; and schema routes under the root with the
  root redirect, where \<^verbatim>\<open>GET /\<close> is registered twice.
\<close>

definition example_schema_config :: ServiceConfig where
  "example_schema_config = example_config\<lparr>Schema_Enabled := True, Schema_RootRedirect := True\<rparr>"

definition root_schema_config :: ServiceConfig where
  "root_schema_config =
     example_config\<lparr>Schema_Enabled := True, Schema_UriPath := ''/'', Schema_RootRedirect := True\<rparr>"

definition example_metrics_config :: ServiceConfig where
  "example_metrics_config = example_config\<lparr>Metrics_Enabled := True\<rparr>"


section \<open>Properties\<close>

subsection \<open>Chains and setup calls\<close>

lemma chain_handlers_buildMiddleware: "chain_handlers (buildMiddleware hs) = hs"
  by (induction hs) simp_all

lemma ServeHTTP_Link:
  "ServeHTTP builtin (Link h m) = (\<lambda>ctx rw r. HandleHTTP builtin h ctx rw r (ServeHTTP builtin m))"
  by (intro ext) simp

lemma call_stats: "stats (call s c) = stats s"
  by (cases c) (simp_all add: AddHandler_def AddSingletonResource_def AddCollectionResource_def Let_def)

lemma calls_stats: "stats (calls s cs) = stats s"
  by (induction cs arbitrary: s) (simp_all add: call_stats)

lemma call_handlers: "handlers (call s c) = handlers s @ added_handlers [c]"
  by (cases c) (simp_all add: AddHandler_def AddSingletonResource_def AddCollectionResource_def Let_def)

lemma added_handlers_Cons: "added_handlers (c # cs) = added_handlers [c] @ added_handlers cs"
  by (cases c) simp_all

lemma calls_handlers: "handlers (calls s cs) = handlers s @ added_handlers cs"
proof (induction cs arbitrary: s)
  case Nil
  show ?case by simp
next
  case (Cons c cs)
  have "handlers (calls s (c # cs)) = handlers (call s c) @ added_handlers cs"
    using Cons.IH by simp
  also have "\<dots> = handlers s @ added_handlers [c] @ added_handlers cs"
    by (simp add: call_handlers)
  finally show ?case
    using added_handlers_Cons [of c cs] by simp
qed

lemma call_middleware:
  "middleware s = Some (buildMiddleware (handlers s)) \<Longrightarrow>
   middleware (call s c) = Some (buildMiddleware (handlers (call s c)))"
  by (cases c) (simp_all add: AddHandler_def AddSingletonResource_def AddCollectionResource_def Let_def)

lemma calls_middleware:
  "middleware s = Some (buildMiddleware (handlers s)) \<Longrightarrow>
   middleware (calls s cs) = Some (buildMiddleware (handlers (calls s cs)))"
  by (induction cs arbitrary: s) (simp_all add: call_middleware)

subsection \<open>What NewService returns\<close>

text \<open>
  The configuration the caller is left with, and the fields of the service
  on success, by cases on the metrics settings.
\<close>

lemmas NewService_defs = NewService_def Let_def newBottomHandler_def newNegotiatorHandler_def
  newContextHandler_def Stats_def addSchemaRoutes_def router_GET_def registered_def Handle_def
  httprouter_New_def schema_routes_accepted_def

lemma NewService_fst:
  "fst (NewService accepts c :: ServiceConfig \<times> (error + ('r, 'c, 'q) service) outcome) =
     (if Metrics_Enabled c then
        c\<lparr>Metrics_Server := (if Metrics_Server c = [] then DEFAULT_STATSD_SERVER else Metrics_Server c),
          Metrics_Prefix := (if Metrics_Prefix c = [] then DEFAULT_STATSD_PREFIX else Metrics_Prefix c),
          Metrics_Interval := (if Metrics_Interval c = 0 then DEFAULT_STATSD_INTERVAL else Metrics_Interval c)\<rparr>
      else c)"
proof (cases "Metrics_Enabled c")
  case False
  then show ?thesis by (simp add: NewService_defs)
next
  case True
  then show ?thesis
    by (cases "Metrics_Server c = []"; cases "Metrics_Prefix c = []"; cases "Metrics_Interval c = 0")
       (simp_all add: NewService_defs)
qed

lemma NewService_snd:
  "(case snd (NewService accepts c :: ServiceConfig \<times> (error + ('r, 'c, 'q) service) outcome) of
      Panic \<Rightarrow> 1 \<le> Version_Min c \<and> 1 \<le> Version_Max c
        \<and> Schema_Enabled c \<and> \<not> schema_routes_accepted accepts c
    | Return (Inl e) \<Rightarrow> (Version_Min c < 1 \<or> Version_Max c < 1)
    | Return (Inr s) \<Rightarrow> 1 \<le> Version_Min c \<and> 1 \<le> Version_Max c
        \<and> (\<not> Schema_Enabled c \<or> schema_routes_accepted accepts c)
        \<and> config s = fst (NewService accepts c :: ServiceConfig \<times> (error + ('r, 'c, 'q) service) outcome)
        \<and> logger s = log_New (Log_Prefix c)
        \<and> handlers s = [NewBottom (config s) (logger s) (Stats s),
                        NewNegotiator [ContentTypeJson, ContentTypeXml, ContentTypeHtml],
                        NewContext (Version_Min c) (Version_Max c)]
        \<and> middleware s = Some (buildMiddleware (handlers s))
        \<and> stats s = (if Metrics_Enabled c then
                Some ((NewStatsdBuffer (Metrics_Interval (config s))
                        (NewStatsdClient (Metrics_Server (config s)) (Metrics_Prefix (config s))))
                      \<lparr>buffer_Logger := Some (logger s)\<rparr>)
              else None))"
proof (cases "Metrics_Enabled c")
  case False
  then show ?thesis by (simp add: NewService_defs)
next
  case True
  then show ?thesis
    by (cases "Metrics_Server c = []"; cases "Metrics_Prefix c = []"; cases "Metrics_Interval c = 0")
       (simp_all add: NewService_defs)
qed

lemma NewService_Inr:
  fixes s :: "('r, 'c, 'q) service"
  assumes "NewService accepts c = (c', Return (Inr s))"
  shows "1 \<le> Version_Min c" and "1 \<le> Version_Max c" and "config s = c'"
    and "logger s = log_New (Log_Prefix c)"
    and "handlers s = [NewBottom c' (log_New (Log_Prefix c)) (Stats s),
                        NewNegotiator [ContentTypeJson, ContentTypeXml, ContentTypeHtml],
                        NewContext (Version_Min c) (Version_Max c)]"
    and "middleware s = Some (buildMiddleware (handlers s))"
    and "stats s = (if Metrics_Enabled c then
                Some ((NewStatsdBuffer (Metrics_Interval c')
                        (NewStatsdClient (Metrics_Server c') (Metrics_Prefix c')))
                      \<lparr>buffer_Logger := Some (log_New (Log_Prefix c))\<rparr>)
              else None)"
    and "\<not> Schema_Enabled c \<or> schema_routes_accepted accepts c"
  using NewService_snd [where accepts = accepts and c = c and ?'r = 'r and ?'c = 'c and ?'q = 'q] assms
  by simp_all

lemma NewService_Inl:
  fixes c :: ServiceConfig
  assumes "snd (NewService accepts c :: ServiceConfig \<times> (error + ('r, 'c, 'q) service) outcome) = Return (Inl e)"
  shows "Version_Min c < 1 \<or> Version_Max c < 1"
  using NewService_snd [where accepts = accepts and c = c and ?'r = 'r and ?'c = 'c and ?'q = 'q] assms
  by simp

lemma NewService_Panic:
  fixes c :: ServiceConfig
  assumes "snd (NewService accepts c :: ServiceConfig \<times> (error + ('r, 'c, 'q) service) outcome) = Panic"
  shows "1 \<le> Version_Min c \<and> 1 \<le> Version_Max c \<and> Schema_Enabled c \<and> \<not> schema_routes_accepted accepts c"
  using NewService_snd [where accepts = accepts and c = c and ?'r = 'r and ?'c = 'c and ?'q = 'q] assms
  by simp

lemma NewService_succeeds:
  assumes "1 \<le> Version_Min c" and "1 \<le> Version_Max c"
    and "\<not> Schema_Enabled c \<or> schema_routes_accepted accepts c"
  shows "\<exists>s. snd (NewService accepts c :: ServiceConfig \<times> (error + ('r, 'c, 'q) service) outcome) = Return (Inr s)"
proof (cases "snd (NewService accepts c :: ServiceConfig \<times> (error + ('r, 'c, 'q) service) outcome)")
  case Panic
  from NewService_Panic [OF this] assms(3) show ?thesis by simp
next
  case (Return x)
  show ?thesis
  proof (cases x)
    case (Inl e)
    with Return have "snd (NewService accepts c :: ServiceConfig \<times> (error + ('r, 'c, 'q) service) outcome) = Return (Inl e)"
      by simp
    from NewService_Inl [OF this] assms(1,2) show ?thesis by simp
  next
    case (Inr s)
    with Return show ?thesis by simp
  qed
qed

lemma NewService_fails:
  assumes "Version_Min c < 1 \<or> Version_Max c < 1"
  shows "\<exists>e. snd (NewService accepts c :: ServiceConfig \<times> (error + ('r, 'c, 'q) service) outcome) = Return (Inl e)"
proof (cases "snd (NewService accepts c :: ServiceConfig \<times> (error + ('r, 'c, 'q) service) outcome)")
  case Panic
  from NewService_Panic [OF this] assms show ?thesis by simp
next
  case (Return x)
  show ?thesis
  proof (cases x)
    case (Inl e)
    with Return show ?thesis by simp
  next
    case (Inr s)
    with Return have "NewService accepts c =
        (fst (NewService accepts c :: ServiceConfig \<times> (error + ('r, 'c, 'q) service) outcome), Return (Inr s))"
      by (simp add: prod_eq_iff)
    from NewService_Inr(1,2) [OF this] assms show ?thesis by simp
  qed
qed

lemma NewService_panics:
  assumes "1 \<le> Version_Min c" and "1 \<le> Version_Max c"
    and "Schema_Enabled c" and "\<not> schema_routes_accepted accepts c"
  shows "snd (NewService accepts c :: ServiceConfig \<times> (error + ('r, 'c, 'q) service) outcome) = Panic"
proof (cases "snd (NewService accepts c :: ServiceConfig \<times> (error + ('r, 'c, 'q) service) outcome)")
  case Panic
  then show ?thesis .
next
  case (Return x)
  show ?thesis
  proof (cases x)
    case (Inl e)
    with Return have "snd (NewService accepts c :: ServiceConfig \<times> (error + ('r, 'c, 'q) service) outcome) = Return (Inl e)"
      by simp
    from NewService_Inl [OF this] assms(1,2) show ?thesis by simp
  next
    case (Inr s)
    with Return have "NewService accepts c =
        (fst (NewService accepts c :: ServiceConfig \<times> (error + ('r, 'c, 'q) service) outcome), Return (Inr s))"
      by (simp add: prod_eq_iff)
    from NewService_Inr(8) [OF this] assms(3,4) show ?thesis by simp
  qed
qed

lemma NewService_example:
  "\<exists>c' s. (NewService accepts_fresh example_config :: ServiceConfig \<times> (error + (unit, unit, unit) service) outcome) = (c', Return (Inr s))"
  using NewService_succeeds [where c = example_config and accepts = accepts_fresh
      and ?'r = unit and ?'c = unit and ?'q = unit]
  by (simp add: example_config_def prod_eq_iff)

lemma NewService_example_metrics:
  "\<exists>c' s. (NewService accepts_fresh example_metrics_config :: ServiceConfig \<times> (error + (unit, unit, unit) service) outcome) = (c', Return (Inr s))"
  using NewService_succeeds [where c = example_metrics_config and accepts = accepts_fresh
      and ?'r = unit and ?'c = unit and ?'q = unit]
  by (simp add: example_config_def example_metrics_config_def prod_eq_iff)

lemmas Run_defs = Run_def newRouterHandler_def AddHandler_def Let_def

lemma Run_returns:
  "\<exists>s' out. Run dispatch (\<lambda>_. Some e) s = Some (e, s', out)"
  by (cases "Transport_TLS (config s)") (simp_all add: Run_defs)

subsection \<open>Route registration\<close>



subsection \<open>The handler list\<close>

text \<open>
  C3: AddHandler leaves the handler list as the previous list with the new
  handler appended as its last element, so that the handlers added before
  keep their positions, and the middleware chain of the service is the chain
  built from that updated list.
\<close>

theorem AddHandler_appends:
  "handlers (AddHandler s h) = handlers s @ [h]
   \<and> take (length (handlers s)) (handlers (AddHandler s h)) = handlers s
   \<and> last (handlers (AddHandler s h)) = h
   \<and> middleware (AddHandler s h) = Some (buildMiddleware (handlers s @ [h]))
   \<and> map_option chain_handlers (middleware (AddHandler s h)) = Some (handlers s @ [h])"
  by (simp add: AddHandler_def Let_def chain_handlers_buildMiddleware)



subsection \<open>Construction\<close>

text \<open>
  C5, amended: NewService returns an error, and no service, exactly when
  the minimum or the maximum API version of the configuration is below 1.
  When both are at least 1 it returns a service whose third handler is the
  context handler for the range from the minimum to the maximum, provided
  that schema routes are disabled or the router takes each of them; when the
  router refuses a schema route, NewService panics and returns neither a
  service nor an error.
\<close>

theorem NewService_fails_iff:
  "((\<exists>err. snd (NewService accepts c :: ServiceConfig \<times> (error + ('r, 'c, 'q) service) outcome) = Return (Inl err))
      \<longleftrightarrow> (Version_Min c < 1 \<or> Version_Max c < 1))
   \<and> (1 \<le> Version_Min c \<and> 1 \<le> Version_Max c \<longrightarrow>
        (if \<not> Schema_Enabled c \<or> schema_routes_accepted accepts c
         then \<exists>s. snd (NewService accepts c :: ServiceConfig \<times> (error + ('r, 'c, 'q) service) outcome) = Return (Inr s)
                  \<and> handlers s ! 2 = NewContext (Version_Min c) (Version_Max c)
         else snd (NewService accepts c :: ServiceConfig \<times> (error + ('r, 'c, 'q) service) outcome) = Panic))"
proof -
  let ?res = "snd (NewService accepts c :: ServiceConfig \<times> (error + ('r, 'c, 'q) service) outcome)"
  have fails: "(\<exists>err. ?res = Return (Inl err)) \<longleftrightarrow> (Version_Min c < 1 \<or> Version_Max c < 1)"
    using NewService_Inl NewService_fails by blast
  have ok: "\<exists>s. ?res = Return (Inr s) \<and> handlers s ! 2 = NewContext (Version_Min c) (Version_Max c)"
    if mn: "1 \<le> Version_Min c" and mx: "1 \<le> Version_Max c"
      and acc: "\<not> Schema_Enabled c \<or> schema_routes_accepted accepts c"
  proof -
    obtain s where s: "?res = Return (Inr s)"
      using NewService_succeeds [OF mn mx acc] by blast
    then have "NewService accepts c =
        (fst (NewService accepts c :: ServiceConfig \<times> (error + ('r, 'c, 'q) service) outcome), Return (Inr s))"
      by (simp add: prod_eq_iff)
    from NewService_Inr(5) [OF this] have "handlers s ! 2 = NewContext (Version_Min c) (Version_Max c)"
      by simp
    with s show ?thesis by blast
  qed
  have panics: "?res = Panic"
    if "1 \<le> Version_Min c" and "1 \<le> Version_Max c"
      and "\<not> (\<not> Schema_Enabled c \<or> schema_routes_accepted accepts c)"
    using that NewService_panics [of c accepts] by simp
  from fails ok panics show ?thesis by simp
qed

theorem NewService_fails_iff_witness:
  "1 \<le> Version_Min example_schema_config \<and> 1 \<le> Version_Max example_schema_config
   \<and> schema_routes_accepted accepts_fresh example_schema_config
   \<and> (\<exists>s. snd (NewService accepts_fresh example_schema_config
               :: ServiceConfig \<times> (error + (unit, unit, unit) service) outcome) = Return (Inr s)
        \<and> handlers s ! 2 = NewContext 1 2)
   \<and> Version_Min (example_config\<lparr>Version_Min := 0\<rparr>) < 1
   \<and> (\<exists>err. snd (NewService accepts_fresh (example_config\<lparr>Version_Min := 0\<rparr>)
          :: ServiceConfig \<times> (error + (unit, unit, unit) service) outcome) = Return (Inl err))"
  using NewService_fails_iff [where c = example_schema_config and accepts = accepts_fresh
      and ?'r = unit and ?'c = unit and ?'q = unit]
    NewService_fails_iff [where c = "example_config\<lparr>Version_Min := 0\<rparr>" and accepts = accepts_fresh
      and ?'r = unit and ?'c = unit and ?'q = unit]
  by (simp add: example_config_def example_schema_config_def schema_routes_accepted_def accepts_fresh_def)

text \<open>
  With schema routes under the root and the root redirect, both versions at
  least 1, \<^verbatim>\<open>GET /\<close> is registered twice: NewService panics.
\<close>

theorem NewService_root_schema_panics:
  "1 \<le> Version_Min root_schema_config \<and> 1 \<le> Version_Max root_schema_config
   \<and> snd (NewService accepts_fresh root_schema_config
           :: ServiceConfig \<times> (error + (unit, unit, unit) service) outcome) = Panic"
  by (simp add: NewService_defs root_schema_config_def example_config_def accepts_fresh_def)

text \<open>
  C6: a service that NewService has returned has the handler list Bottom,
  Negotiator, Context, in this order, and its chain is built from that list.
  Handlers added afterwards come behind these three, so a request is given
  to Bottom first, whose continuation gives it to the negotiator, whose
  continuation gives it to the context handler, whose continuation runs the
  handlers added by the client.
\<close>

theorem NewService_default_handlers:
  fixes s :: "('r, 'c, 'q) service"
  assumes "NewService accepts c = (c', Return (Inr s))"
  shows "handlers s = [NewBottom c' (log_New (Log_Prefix c)) (Stats s),
                       NewNegotiator [ContentTypeJson, ContentTypeXml, ContentTypeHtml],
                       NewContext (Version_Min c) (Version_Max c)]
     \<and> middleware s = Some (buildMiddleware (handlers s))
     \<and> handlers (calls s cs) = handlers s @ added_handlers cs
     \<and> middleware (calls s cs) = Some (buildMiddleware (handlers s @ added_handlers cs))
     \<and> ServeHTTP builtin (buildMiddleware (handlers s @ added_handlers cs)) ctx rw r =
         builtin (NewBottom c' (log_New (Log_Prefix c)) (Stats s)) ctx rw r
           (\<lambda>ctx1 rw1 r1. builtin (NewNegotiator [ContentTypeJson, ContentTypeXml, ContentTypeHtml]) ctx1 rw1 r1
             (\<lambda>ctx2 rw2 r2. builtin (NewContext (Version_Min c) (Version_Max c)) ctx2 rw2 r2
               (ServeHTTP builtin (buildMiddleware (added_handlers cs)))))"
proof -
  note hs = NewService_Inr(5) [OF assms]
  note mw = NewService_Inr(6) [OF assms]
  have "middleware (calls s cs) = Some (buildMiddleware (handlers s @ added_handlers cs))"
    using calls_middleware [OF mw, of cs] by (simp add: calls_handlers)
  moreover have "ServeHTTP builtin (buildMiddleware (handlers s @ added_handlers cs)) ctx rw r =
         builtin (NewBottom c' (log_New (Log_Prefix c)) (Stats s)) ctx rw r
           (\<lambda>ctx1 rw1 r1. builtin (NewNegotiator [ContentTypeJson, ContentTypeXml, ContentTypeHtml]) ctx1 rw1 r1
             (\<lambda>ctx2 rw2 r2. builtin (NewContext (Version_Min c) (Version_Max c)) ctx2 rw2 r2
               (ServeHTTP builtin (buildMiddleware (added_handlers cs)))))"
    by (subst hs) (simp add: ServeHTTP_Link)
  ultimately show ?thesis
    using hs mw by (simp add: calls_handlers)
qed

theorem NewService_default_handlers_witness:
  "\<exists>c' s. (NewService accepts_fresh example_config :: ServiceConfig \<times> (error + (unit, unit, unit) service) outcome) = (c', Return (Inr s))
     \<and> handlers s = [NewBottom c' (log_New (Log_Prefix example_config)) (Stats s),
                       NewNegotiator [ContentTypeJson, ContentTypeXml, ContentTypeHtml],
                       NewContext 1 2]
     \<and> handlers (calls s [CallAddHandler (NewContext 7 7), CallAddSingletonResource ''/config'' ()])
          = handlers s @ [NewContext 7 7]"
proof -
  obtain c' and s :: "(unit, unit, unit) service" where ns: "NewService accepts_fresh example_config = (c', Return (Inr s))"
    using NewService_example by blast
  from NewService_default_handlers [OF ns, of "[CallAddHandler (NewContext 7 7), CallAddSingletonResource ''/config'' ()]"]
  have "handlers s = [NewBottom c' (log_New (Log_Prefix example_config)) (Stats s),
                       NewNegotiator [ContentTypeJson, ContentTypeXml, ContentTypeHtml],
                       NewContext 1 2]
     \<and> handlers (calls s [CallAddHandler (NewContext 7 7), CallAddSingletonResource ''/config'' ()])
          = handlers s @ [NewContext 7 7]"
    by (simp add: example_config_def)
  with ns show ?thesis by blast
qed

text \<open>
  C10: when metrics are enabled, NewService writes the defaults into the
  configuration of the caller: an empty server becomes 127.0.0.1:8125, an
  empty prefix becomes %HOST%. and a zero interval becomes two seconds;
  values that are set, and all other fields, stay as they are. A service
  that is returned holds this same configuration.
\<close>

theorem NewService_metrics_defaults:
  assumes "Metrics_Enabled c"
  shows "fst (NewService accepts c :: ServiceConfig \<times> (error + ('r, 'c, 'q) service) outcome) =
           c\<lparr>Metrics_Server := (if Metrics_Server c = [] then ''127.0.0.1:8125'' else Metrics_Server c),
             Metrics_Prefix := (if Metrics_Prefix c = [] then ''%HOST%.'' else Metrics_Prefix c),
             Metrics_Interval := (if Metrics_Interval c = 0 then 2 * 1000000000 else Metrics_Interval c)\<rparr>
     \<and> (\<forall>s. snd (NewService accepts c :: ServiceConfig \<times> (error + ('r, 'c, 'q) service) outcome) = Return (Inr s) \<longrightarrow>
           config s = fst (NewService accepts c :: ServiceConfig \<times> (error + ('r, 'c, 'q) service) outcome))"
proof -
  have "config s = fst (NewService accepts c :: ServiceConfig \<times> (error + ('r, 'c, 'q) service) outcome)"
    if "snd (NewService accepts c :: ServiceConfig \<times> (error + ('r, 'c, 'q) service) outcome) = Return (Inr s)" for s
  proof -
    from that have "NewService accepts c = (fst (NewService accepts c :: ServiceConfig \<times> (error + ('r, 'c, 'q) service) outcome), Return (Inr s))"
      by (simp add: prod_eq_iff)
    from NewService_Inr(3) [OF this] show ?thesis .
  qed
  then show ?thesis
    using assms
    by (simp add: NewService_fst DEFAULT_STATSD_SERVER_def DEFAULT_STATSD_PREFIX_def
        DEFAULT_STATSD_INTERVAL_def Second_def)
qed

theorem NewService_metrics_defaults_witness:
  "Metrics_Enabled (example_metrics_config\<lparr>Metrics_Prefix := ''app.''\<rparr>)
   \<and> fst (NewService accepts_fresh (example_metrics_config\<lparr>Metrics_Prefix := ''app.''\<rparr>)
         :: ServiceConfig \<times> (error + (unit, unit, unit) service) outcome) =
       example_metrics_config\<lparr>Metrics_Server := ''127.0.0.1:8125'', Metrics_Prefix := ''app.'',
                               Metrics_Interval := 2000000000\<rparr>"
  using NewService_metrics_defaults [where c = "example_metrics_config\<lparr>Metrics_Prefix := ''app.''\<rparr>"
      and accepts = accepts_fresh and ?'r = unit and ?'c = unit and ?'q = unit]
  by (simp add: example_config_def example_metrics_config_def)

subsection \<open>Metrics\<close>

text \<open>
  C9: Stats never returns nil, nor a nil pointer behind the interface: it
  returns the statsd buffer of the service when there is one and the shared
  NullStats instance otherwise. For a service returned by NewService, also
  after any setup calls, that is the buffer created at construction when
  metrics are enabled, and NullStats when they are not.
\<close>

theorem Stats_never_nil:
  fixes s :: "('r, 'c, 'q) service" and s0 :: "('r0, 'c0, 'q0) service"
  shows "usable (Stats s)
     \<and> Stats s = (case stats s of Some b \<Rightarrow> BufferStats (Some b) | None \<Rightarrow> NullStatsPtr (Some NullStats))
     \<and> (NewService accepts c = (c', Return (Inr s0)) \<longrightarrow>
          Stats (calls s0 cs) =
            (if Metrics_Enabled c then
               BufferStats (Some ((NewStatsdBuffer (Metrics_Interval c')
                                    (NewStatsdClient (Metrics_Server c') (Metrics_Prefix c')))
                                  \<lparr>buffer_Logger := Some (log_New (Log_Prefix c))\<rparr>))
             else NullStatsPtr (Some NullStats)))"
proof -
  have "usable (Stats s)"
    by (simp add: Stats_def nullStats_def)
  moreover have "Stats s = (case stats s of Some b \<Rightarrow> BufferStats (Some b) | None \<Rightarrow> NullStatsPtr (Some NullStats))"
    by (simp add: Stats_def nullStats_def split: option.splits)
  moreover have "Stats (calls s0 cs) =
            (if Metrics_Enabled c then
               BufferStats (Some ((NewStatsdBuffer (Metrics_Interval c')
                                    (NewStatsdClient (Metrics_Server c') (Metrics_Prefix c')))
                                  \<lparr>buffer_Logger := Some (log_New (Log_Prefix c))\<rparr>))
             else NullStatsPtr (Some NullStats))" if ns: "NewService accepts c = (c', Return (Inr s0))"
    using NewService_Inr(7) [OF ns] by (simp add: Stats_def calls_stats nullStats_def)
  ultimately show ?thesis by blast
qed

theorem Stats_never_nil_witness:
  "\<exists>c' s0. (NewService accepts_fresh example_metrics_config :: ServiceConfig \<times> (error + (unit, unit, unit) service) outcome) = (c', Return (Inr s0))
     \<and> Stats (calls s0 [CallAddCollectionResource ''/widgets'' ()]) =
          BufferStats (Some \<lparr>flushInterval = Metrics_Interval c',
                             statsd = \<lparr>client_addr = Metrics_Server c', client_prefix = Metrics_Prefix c'\<rparr>,
                             buffer_Logger = Some \<lparr>log_prefix = ''svc ''\<rparr>, closed = False\<rparr>)"
proof -
  obtain c' and s0 :: "(unit, unit, unit) service" where ns: "NewService accepts_fresh example_metrics_config = (c', Return (Inr s0))"
    using NewService_example_metrics by blast
  from Stats_never_nil [of "s0" accepts_fresh example_metrics_config c' s0 "[CallAddCollectionResource ''/widgets'' ()]"] ns
  have "Stats (calls s0 [CallAddCollectionResource ''/widgets'' ()]) =
          BufferStats (Some \<lparr>flushInterval = Metrics_Interval c',
                             statsd = \<lparr>client_addr = Metrics_Server c', client_prefix = Metrics_Prefix c'\<rparr>,
                             buffer_Logger = Some \<lparr>log_prefix = ''svc ''\<rparr>, closed = False\<rparr>)"
    by (simp add: example_config_def example_metrics_config_def NewStatsdBuffer_def NewStatsdClient_def log_New_def)
  with ns show ?thesis by blast
qed

text \<open>
  C8: whenever Run returns on a service that has a statsd buffer, whatever
  error value the server ended with, the buffer has been closed; and a
  service constructed with metrics enabled has such a buffer, not yet closed,
  throughout the setup calls.
\<close>

theorem Run_closes_stats:
  fixes s :: "('r, 'c, 'q) service" and s0 :: "('r0, 'c0, 'q0) service"
  shows "(stats s = Some b \<and> Run dispatch serve s = Some (err, s', out) \<longrightarrow>
            stats s' = Some (Close b) \<and> closed (Close b))
     \<and> (NewService accepts c = (c', Return (Inr s0)) \<and> Metrics_Enabled c \<longrightarrow>
            (\<exists>b0. stats (calls s0 cs) = Some b0 \<and> \<not> closed b0))"
proof -
  have "stats s' = Some (Close b) \<and> closed (Close b)"
    if "stats s = Some b" and "Run dispatch serve s = Some (err, s', out)"
    using that by (auto simp: Run_defs Close_def split: if_splits option.splits)
  moreover have "\<exists>b0. stats (calls s0 cs) = Some b0 \<and> \<not> closed b0"
    if ns: "NewService accepts c = (c', Return (Inr s0))" and "Metrics_Enabled c"
    using NewService_Inr(7) [OF ns] that(2) by (simp add: calls_stats NewStatsdBuffer_def)
  ultimately show ?thesis by blast
qed

theorem Run_closes_stats_witness:
  "\<exists>c' s0 b s' out.
     (NewService accepts_fresh example_metrics_config :: ServiceConfig \<times> (error + (unit, unit, unit) service) outcome) = (c', Return (Inr s0))
     \<and> Metrics_Enabled example_metrics_config
     \<and> stats s0 = Some b \<and> \<not> closed b
     \<and> Run (\<lambda>_ _ rw _. rw) (\<lambda>_. Some (Some (Error ''listen failed''))) s0
          = Some (Some (Error ''listen failed''), s', out)
     \<and> stats s' = Some (Close b) \<and> closed (Close b)"
proof -
  obtain c' and s0 :: "(unit, unit, unit) service" where ns: "NewService accepts_fresh example_metrics_config = (c', Return (Inr s0))"
    using NewService_example_metrics by blast
  have en: "Metrics_Enabled example_metrics_config"
    by (simp add: example_metrics_config_def)
  from Run_closes_stats [of s0 undefined "\<lambda>_ _ rw _. rw" "\<lambda>_. None" None s0 "[]"
      accepts_fresh example_metrics_config c' s0 "[]"] ns en
  have "\<exists>b0. stats s0 = Some b0 \<and> \<not> closed b0"
    by simp
  then obtain b where b: "stats s0 = Some b" "\<not> closed b"
    by blast
  obtain s' out where run: "Run (\<lambda>_ _ rw _. rw) (\<lambda>_. Some (Some (Error ''listen failed''))) s0
          = Some (Some (Error ''listen failed''), s', out)"
    using Run_returns [of "\<lambda>_ _ rw _. rw" "Some (Error ''listen failed'')" s0] by blast
  from Run_closes_stats [of s0 b "\<lambda>_ _ rw _. rw" "\<lambda>_. Some (Some (Error ''listen failed''))"
      "Some (Error ''listen failed'')" s' out accepts_fresh example_metrics_config c' s0 "[]"] b run
  have "stats s' = Some (Close b) \<and> closed (Close b)"
    by simp
  with ns en b run show ?thesis by blast
qed

end
